theory Spec2Isabelle
  imports Main "HOL-Library.Sublist" "HOL-Library.AList"
begin

section \<open>The project bootstrap script\<close>

text \<open>
  A shallow embedding of \<^verbatim>\<open>core/scripts/bootstrap.py\<close>: the class
  \<^verbatim>\<open>ProjectBootstrap\<close> and \<^verbatim>\<open>main\<close>. Python strings are
  \<^typ>\<open>string\<close> (bytes; the script's own literals that reach a file are ASCII), the
  file system, standard input and the remote repository are explicit, and every method
  returns either the exception it raises or its value, together with the state it leaves.
  Console output (\<^verbatim>\<open>print\<close>, the prompt texts of \<^verbatim>\<open>input\<close>) is not
  modelled; it decides nothing.
\<close>

subsection \<open>Python string methods\<close>

definition nl :: string where
  "nl = [CHR 0x0A]"

text \<open>The ASCII characters \<^verbatim>\<open>str.strip\<close> removes.\<close>

definition whitespace :: string where
  "whitespace =
     [CHR 0x09, CHR 0x0A, CHR 0x0B, CHR 0x0C, CHR 0x0D, CHR 0x1C, CHR 0x1D, CHR 0x1E, CHR 0x1F,
      CHR '' '']"

definition strip :: "string \<Rightarrow> string" where
  "strip s =
     rev (dropWhile (\<lambda>c. c \<in> set whitespace) (rev (dropWhile (\<lambda>c. c \<in> set whitespace) s)))"

definition ascii_upper :: string where
  "ascii_upper = ''ABCDEFGHIJKLMNOPQRSTUVWXYZ''"

definition ascii_lower :: string where
  "ascii_lower = ''abcdefghijklmnopqrstuvwxyz''"

definition to_lower :: "char \<Rightarrow> char" where
  "to_lower c = (case map_of (zip ascii_upper ascii_lower) c of Some d \<Rightarrow> d | None \<Rightarrow> c)"

definition to_upper :: "char \<Rightarrow> char" where
  "to_upper c = (case map_of (zip ascii_lower ascii_upper) c of Some d \<Rightarrow> d | None \<Rightarrow> c)"

text \<open>\<^verbatim>\<open>str.lower\<close>, on ASCII letters.\<close>

definition lower :: "string \<Rightarrow> string" where
  "lower s = map to_lower s"

text \<open>
  \<^verbatim>\<open>str.title\<close>, on ASCII letters: a letter that follows a letter is lowered, any
  other letter is raised. The flag says whether the previous character was a letter.
\<close>

fun title_from :: "bool \<Rightarrow> string \<Rightarrow> string" where
  "title_from prev [] = []"
| "title_from prev (c # cs) =
     (if c \<in> set ascii_lower then (if prev then c else to_upper c) # title_from True cs
      else if c \<in> set ascii_upper then (if prev then to_lower c else c) # title_from True cs
      else c # title_from False cs)"

definition title :: "string \<Rightarrow> string" where
  "title s = title_from False s"

text \<open>
  \<^verbatim>\<open>s.replace(old, new)\<close>: the occurrences of \<open>old\<close> are found from the left and
  do not overlap. With an empty \<open>old\<close>, \<open>new\<close> goes before every character and at the
  end, as in Python.
\<close>

function py_replace :: "string \<Rightarrow> string \<Rightarrow> string \<Rightarrow> string" where
  "py_replace [] old new = (if old = [] then new else [])"
| "py_replace (c # cs) old new =
     (if old = [] then new @ c # py_replace cs old new
      else if prefix old (c # cs) then new @ py_replace (drop (length old) (c # cs)) old new
      else c # py_replace cs old new)"
  by pat_completeness auto
termination
  by (relation "measure (\<lambda>(s, old, new). length s)") auto

declare py_replace.simps [simp del]

text \<open>
  \<^verbatim>\<open>s.split(sep)\<close> for a non-empty separator (the script splits on the literal
  \<^verbatim>\<open>','\<close> only; Python raises ValueError on an empty one). \<open>cur\<close> is the piece being
  read.
\<close>

function split_from :: "string \<Rightarrow> string \<Rightarrow> string \<Rightarrow> string list" where
  "split_from sep cur [] = [cur]"
| "split_from sep cur (c # cs) =
     (if sep \<noteq> [] \<and> prefix sep (c # cs)
      then cur # split_from sep [] (drop (length sep) (c # cs))
      else split_from sep (cur @ [c]) cs)"
  by pat_completeness auto
termination
  by (relation "measure (\<lambda>(sep, cur, s). length s)") auto

definition py_split :: "string \<Rightarrow> string \<Rightarrow> string list" where
  "py_split s sep = split_from sep [] s"

text \<open>\<^verbatim>\<open>sep.join(xs)\<close>.\<close>

fun py_join :: "string \<Rightarrow> string list \<Rightarrow> string" where
  "py_join sep [] = []"
| "py_join sep [x] = x"
| "py_join sep (x # y # ys) = x @ sep @ py_join sep (y # ys)"

text \<open>
  \<^verbatim>\<open>int(s)\<close> in base ten, on ASCII: surrounding whitespace and one sign are allowed,
  and single underscores between digits. \<open>None\<close> stands for ValueError.
\<close>

definition digit_of :: "char \<Rightarrow> int option" where
  "digit_of c = map_of (zip ''0123456789'' [0, 1, 2, 3, 4, 5, 6, 7, 8, 9]) c"

fun digits_from :: "int \<Rightarrow> bool \<Rightarrow> string \<Rightarrow> int option" where
  "digits_from acc after_digit [] = (if after_digit then Some acc else None)"
| "digits_from acc after_digit (c # cs) =
     (if c = CHR ''_'' then (if after_digit then digits_from acc False cs else None)
      else case digit_of c of
             None \<Rightarrow> None
           | Some d \<Rightarrow> digits_from (10 * acc + d) True cs)"

definition py_int :: "string \<Rightarrow> int option" where
  "py_int s =
     (case strip s of
        [] \<Rightarrow> None
      | c # cs \<Rightarrow>
          if c = CHR ''-'' then map_option uminus (digits_from 0 False cs)
          else if c = CHR ''+'' then digits_from 0 False cs
          else digits_from 0 False (c # cs))"

subsection \<open>Paths\<close>

text \<open>
  A \<^verbatim>\<open>pathlib\<close> POSIX path: the anchor (\<^verbatim>\<open>''\<close> for a relative path,
  \<^verbatim>\<open>'/'\<close>, or \<^verbatim>\<open>'//'\<close> for exactly two leading slashes) and the components,
  with empty and \<^verbatim>\<open>'.'\<close> components dropped as the constructor does.
\<close>

datatype path = Path (anchor: string) (parts: "string list")

definition parse_path :: "string \<Rightarrow> path" where
  "parse_path s =
     Path (if prefix ''//'' s \<and> \<not> prefix ''///'' s then ''//''
           else if prefix ''/'' s then ''/'' else [])
          (filter (\<lambda>p. p \<noteq> [] \<and> p \<noteq> ''.'') (py_split s ''/''))"

text \<open>\<^verbatim>\<open>p / s\<close>: an absolute right operand replaces the left one.\<close>

definition joinpath :: "path \<Rightarrow> string \<Rightarrow> path" where
  "joinpath p s =
     (let q = parse_path s
      in if anchor q \<noteq> [] then q else Path (anchor p) (parts p @ parts q))"

definition path_parent :: "path \<Rightarrow> path" where
  "path_parent p = Path (anchor p) (butlast (parts p))"

definition path_name :: "path \<Rightarrow> string" where
  "path_name p = (if parts p = [] then [] else last (parts p))"

subsection \<open>JSON values\<close>

text \<open>
  What \<^verbatim>\<open>json.loads\<close> returns: \<open>JNull\<close> is Python's \<^verbatim>\<open>None\<close>, a
  \<open>JObj\<close> is a \<^verbatim>\<open>dict\<close> in insertion order (its keys are distinct). Numbers are
  integers here; a float behaves like one wherever the script looks at a manifest (it is
  true unless zero, has no \<^verbatim>\<open>get\<close> and cannot be iterated).
\<close>

datatype json =
    JNull
  | JBool bool
  | JNum int
  | JStr string
  | JArr "json list"
  | JObj "(string \<times> json) list"

fun truthy :: "json \<Rightarrow> bool" where
  "truthy JNull = False"
| "truthy (JBool b) = b"
| "truthy (JNum n) = (n \<noteq> 0)"
| "truthy (JStr s) = (s \<noteq> [])"
| "truthy (JArr xs) = (xs \<noteq> [])"
| "truthy (JObj m) = (m \<noteq> [])"

subsection \<open>Exceptions, the outside world and the state\<close>

datatype exn =
    FileExistsError
  | FileNotFoundError
  | NotADirectoryError
  | IsADirectoryError
  | PermissionError
  | URLError
  | ValueError
  | AttributeError
  | TypeError
  | EOFError

datatype node = File string | Dir

text \<open>
  The trace records each operation the script starts, in order: a read of standard input,
  \<^verbatim>\<open>claude_dir.mkdir\<close>, a call of \<^verbatim>\<open>fetch_file(path, destination)\<close>, a call of
  \<^verbatim>\<open>fetch_domain_manifest(domain)\<close>, \<^verbatim>\<open>write_text\<close> and \<^verbatim>\<open>chmod\<close>.
\<close>

datatype event =
    Input
  | Mkdir path
  | FetchFile string path
  | FetchManifest string
  | WriteText path string
  | Chmod path nat

text \<open>
  What the script cannot control: \<open>remote url\<close> is the body the server returns for a
  URL (\<open>None\<close>: the request raises), \<open>json_loads body\<close> is the value
  \<^verbatim>\<open>json.loads(body.decode())\<close> returns (\<open>None\<close>: it raises), and \<open>denied p\<close>
  says that the operating system refuses to open, create or change \<open>p\<close>.
\<close>

record world =
  remote :: "string \<Rightarrow> string option"
  json_loads :: "string \<Rightarrow> json option"
  denied :: "path \<Rightarrow> bool"

record state =
  nodes :: "(path \<times> node) list"
  modes :: "(path \<times> nat) list"
  stdin :: "string list"
  trace :: "event list"

type_synonym 'a io = "state \<Rightarrow> (exn + 'a) \<times> state"

definition io_return :: "'a \<Rightarrow> 'a io" where
  "io_return a s = (Inr a, s)"

definition io_raise :: "exn \<Rightarrow> 'a io" where
  "io_raise e s = (Inl e, s)"

text \<open>Sequencing: an exception of the first part skips the rest.\<close>

definition io_bind :: "'a io \<Rightarrow> ('a \<Rightarrow> 'b io) \<Rightarrow> 'b io" where
  "io_bind m f s = (case m s of (Inl e, s') \<Rightarrow> (Inl e, s') | (Inr a, s') \<Rightarrow> f a s')"

text \<open>\<^verbatim>\<open>try: m  except Exception as e: h e\<close>. What \<open>m\<close> did before it raised stays done.\<close>

definition try_except :: "'a io \<Rightarrow> (exn \<Rightarrow> 'a io) \<Rightarrow> 'a io" where
  "try_except m h s = (case m s of (Inl e, s') \<Rightarrow> h e s' | (Inr a, s') \<Rightarrow> (Inr a, s'))"

text \<open>\<^verbatim>\<open>for x in xs: body\<close>.\<close>

fun for_each :: "'a list \<Rightarrow> ('a \<Rightarrow> unit io) \<Rightarrow> unit io" where
  "for_each [] body s = (Inr (), s)"
| "for_each (x # xs) body s =
     (case body x s of (Inl e, s') \<Rightarrow> (Inl e, s') | (Inr u, s') \<Rightarrow> for_each xs body s')"

definition emit :: "event \<Rightarrow> unit io" where
  "emit e s = (Inr (), s\<lparr>trace := trace s @ [e]\<rparr>)"

subsection \<open>The file system and standard input\<close>

text \<open>The path with no component (the anchor, or the working directory) is a directory.\<close>

definition node_at :: "state \<Rightarrow> path \<Rightarrow> node option" where
  "node_at s p = (if parts p = [] then Some Dir else map_of (nodes s) p)"

definition path_exists :: "state \<Rightarrow> path \<Rightarrow> bool" where
  "path_exists s p = (node_at s p \<noteq> None)"

definition is_dir :: "state \<Rightarrow> path \<Rightarrow> bool" where
  "is_dir s p = (node_at s p = Some Dir)"

text \<open>\<^verbatim>\<open>os.mkdir(p)\<close>.\<close>

definition os_mkdir :: "world \<Rightarrow> path \<Rightarrow> unit io" where
  "os_mkdir w p s =
     (if path_exists s p then (Inl FileExistsError, s)
      else case node_at s (path_parent p) of
             None \<Rightarrow> (Inl FileNotFoundError, s)
           | Some (File c) \<Rightarrow> (Inl NotADirectoryError, s)
           | Some Dir \<Rightarrow>
               if denied w p then (Inl PermissionError, s)
               else (Inr (), s\<lparr>nodes := AList.update p Dir (nodes s)\<rparr>))"

text \<open>
  \<^verbatim>\<open>Path.mkdir(parents, exist_ok)\<close>, as \<^verbatim>\<open>pathlib\<close> writes it: a missing parent
  is created first when \<open>parents\<close> is set, and any other error is ignored when
  \<open>exist_ok\<close> is set and the path is a directory.
\<close>

function mkdir :: "world \<Rightarrow> path \<Rightarrow> bool \<Rightarrow> bool \<Rightarrow> unit io" where
  "mkdir w p parents exist_ok s =
     (case os_mkdir w p s of
        (Inr u, s') \<Rightarrow> (Inr u, s')
      | (Inl e, s') \<Rightarrow>
          if e = FileNotFoundError then
            (if \<not> parents \<or> path_parent p = p then (Inl e, s')
             else case mkdir w (path_parent p) True True s' of
                    (Inl e', s'') \<Rightarrow> (Inl e', s'')
                  | (Inr u, s'') \<Rightarrow> mkdir w p False exist_ok s'')
          else if \<not> exist_ok \<or> \<not> is_dir s' p then (Inl e, s')
          else (Inr (), s'))"
  by pat_completeness auto
termination
proof (relation
    "measure (\<lambda>(w, p, parents, exist_ok, s). 2 * length (parts p) + (if parents then 1 else 0))",
    goal_cases)
  case 1
  show ?case by simp
next
  case (2 w p parents exist_ok s r s' e)
  from 2(4) have "parents \<and> 0 < length (parts p)"
    by (cases p) (auto simp: path_parent_def)
  then show ?case
    by (auto simp: path_parent_def)
next
  case (3 w p parents exist_ok s r s' e r' s'' u)
  from 3(4) show ?case
    by simp
qed

declare mkdir.simps [simp del]

text \<open>
  Opening \<open>p\<close> for writing and writing \<open>c\<close>: the content of an existing file is
  replaced, a new file needs its directory.
\<close>

definition open_write :: "world \<Rightarrow> path \<Rightarrow> string \<Rightarrow> unit io" where
  "open_write w p c s =
     (case node_at s p of
        Some Dir \<Rightarrow> (Inl IsADirectoryError, s)
      | Some (File old) \<Rightarrow>
          if denied w p then (Inl PermissionError, s)
          else (Inr (), s\<lparr>nodes := AList.update p (File c) (nodes s)\<rparr>)
      | None \<Rightarrow>
          (case node_at s (path_parent p) of
             None \<Rightarrow> (Inl FileNotFoundError, s)
           | Some (File d) \<Rightarrow> (Inl NotADirectoryError, s)
           | Some Dir \<Rightarrow>
               if denied w p then (Inl PermissionError, s)
               else (Inr (), s\<lparr>nodes := AList.update p (File c) (nodes s)\<rparr>)))"

text \<open>\<^verbatim>\<open>p.write_text(c)\<close>.\<close>

definition write_text :: "world \<Rightarrow> path \<Rightarrow> string \<Rightarrow> unit io" where
  "write_text w p c = io_bind (emit (WriteText p c)) (\<lambda>u. open_write w p c)"

text \<open>\<^verbatim>\<open>p.read_text()\<close>.\<close>

definition read_text :: "world \<Rightarrow> path \<Rightarrow> string io" where
  "read_text w p s =
     (case node_at s p of
        None \<Rightarrow> (Inl FileNotFoundError, s)
      | Some Dir \<Rightarrow> (Inl IsADirectoryError, s)
      | Some (File c) \<Rightarrow> if denied w p then (Inl PermissionError, s) else (Inr c, s))"

text \<open>\<^verbatim>\<open>urllib.request.urlretrieve(url, destination)\<close>.\<close>

definition urlretrieve :: "world \<Rightarrow> string \<Rightarrow> path \<Rightarrow> unit io" where
  "urlretrieve w url destination s =
     (case remote w url of
        None \<Rightarrow> (Inl URLError, s)
      | Some body \<Rightarrow> open_write w destination body s)"

text \<open>\<^verbatim>\<open>json.loads(urlopen(url).read().decode())\<close>.\<close>

definition urlopen_json :: "world \<Rightarrow> string \<Rightarrow> json io" where
  "urlopen_json w url s =
     (case remote w url of
        None \<Rightarrow> (Inl URLError, s)
      | Some body \<Rightarrow>
          (case json_loads w body of None \<Rightarrow> (Inl ValueError, s) | Some j \<Rightarrow> (Inr j, s)))"

text \<open>\<^verbatim>\<open>p.chmod(mode)\<close>.\<close>

definition chmod :: "world \<Rightarrow> path \<Rightarrow> nat \<Rightarrow> unit io" where
  "chmod w p mode =
     io_bind (emit (Chmod p mode)) (\<lambda>u s.
       if \<not> path_exists s p then (Inl FileNotFoundError, s)
       else if denied w p then (Inl PermissionError, s)
       else (Inr (), s\<lparr>modes := AList.update p mode (modes s)\<rparr>))"

text \<open>
  \<^verbatim>\<open>d.glob("*.py")\<close>: the entries of the directory \<open>d\<close> whose name ends in
  \<^verbatim>\<open>.py\<close> (nothing when \<open>d\<close> is not a directory). Python fixes no order; the model
  lists them in the order of \<open>nodes\<close>.
\<close>

definition glob_py :: "state \<Rightarrow> path \<Rightarrow> path list" where
  "glob_py s d =
     (if is_dir s d
      then remdups (filter (\<lambda>p. parts p \<noteq> [] \<and> path_parent p = d \<and> suffix ''.py'' (path_name p))
                     (map fst (nodes s)))
      else [])"

text \<open>\<^verbatim>\<open>input(prompt)\<close>: the next line of standard input, EOFError when there is none.\<close>

definition input :: "string io" where
  "input =
     io_bind (emit Input) (\<lambda>u s.
       case stdin s of
         [] \<Rightarrow> (Inl EOFError, s)
       | line # rest \<Rightarrow> (Inr line, s\<lparr>stdin := rest\<rparr>))"

subsection \<open>ProjectBootstrap\<close>

record bootstrap =
  base_url :: string
  project_root :: path
  available_domains :: "string list"

text \<open>\<^verbatim>\<open>__init__\<close>; \<open>cwd\<close> is what \<^verbatim>\<open>Path.cwd()\<close> returns.\<close>

definition ProjectBootstrap :: "string \<Rightarrow> path \<Rightarrow> bootstrap" where
  "ProjectBootstrap url cwd =
     \<lparr>base_url = url, project_root = cwd,
      available_domains = [''git'', ''python'', ''aws'', ''docker'', ''database'']\<rparr>"

text \<open>
  The configuration dictionary. \<^verbatim>\<open>name\<close>, \<^verbatim>\<open>type\<close> and \<^verbatim>\<open>domains\<close> are
  read with \<^verbatim>\<open>config[...]\<close>, \<^verbatim>\<open>description\<close> with \<^verbatim>\<open>config.get\<close>: it may
  be absent.
\<close>

record config =
  name :: string
  type :: string
  domains :: "string list"
  description :: "string option"

definition project_types :: "string list" where
  "project_types =
     [''Web API'', ''Data Pipeline'', ''CLI Tool'', ''Web Application'', ''Library/Package'',
      ''Custom'']"

text \<open>
  The \<^verbatim>\<open>while True\<close> loop of \<^verbatim>\<open>interactive_setup\<close>: every round reads one line,
  so the loop ends with a valid choice or with EOFError. A line that is not a number
  (ValueError, caught) or is out of range asks again.
\<close>

function select_project_type :: "string io" where
  "select_project_type s =
     (case input s of
        (Inl e, s') \<Rightarrow> (Inl e, s')
      | (Inr line, s') \<Rightarrow>
          (case py_int (if line = [] then ''1'' else line) of
             None \<Rightarrow> select_project_type s'
           | Some choice \<Rightarrow>
               if 1 \<le> choice \<and> choice \<le> int (length project_types)
               then (Inr (project_types ! nat (choice - 1)), s')
               else select_project_type s'))"
  by pat_completeness auto
termination
proof (relation "measure (\<lambda>s. length (stdin s))", goal_cases)
  case 1
  show ?case by simp
next
  case 2
  then show ?case
    by (auto simp: input_def io_bind_def emit_def split: list.splits)
next
  case 3
  then show ?case
    by (auto simp: input_def io_bind_def emit_def split: list.splits)
qed

declare select_project_type.simps [simp del]

text \<open>
  The loop over \<^verbatim>\<open>available_domains[1:]\<close>, with \<^verbatim>\<open>selected_domains\<close> as
  accumulator.
\<close>

fun ask_domains :: "string list \<Rightarrow> string list \<Rightarrow> string list io" where
  "ask_domains [] selected_domains s = (Inr selected_domains, s)"
| "ask_domains (domain # rest) selected_domains s =
     (case input s of
        (Inl e, s') \<Rightarrow> (Inl e, s')
      | (Inr line, s') \<Rightarrow>
          (let response = lower (strip line)
           in ask_domains rest
                (if response \<in> set [''y'', ''yes''] then selected_domains @ [domain]
                 else selected_domains) s'))"

definition interactive_setup :: "bootstrap \<Rightarrow> config io" where
  "interactive_setup b =
     (let default_name = path_name (project_root b)
      in io_bind input (\<lambda>line1.
         io_bind select_project_type (\<lambda>ptype.
         io_bind (ask_domains (drop 1 (available_domains b)) [''git'']) (\<lambda>selected_domains.
         io_bind input (\<lambda>line2.
         io_return
           \<lparr>name = (if strip line1 = [] then default_name else strip line1),
            type = ptype,
            domains = selected_domains,
            description = Some (strip line2)\<rparr>)))))"

definition fetch_file :: "bootstrap \<Rightarrow> world \<Rightarrow> string \<Rightarrow> path \<Rightarrow> bool io" where
  "fetch_file b w path destination =
     (let url = base_url b @ ''/'' @ path
      in io_bind (emit (FetchFile path destination)) (\<lambda>u.
         try_except
           (io_bind (mkdir w (path_parent destination) True True) (\<lambda>u.
            io_bind (urlretrieve w url destination) (\<lambda>u.
            io_return True)))
           (\<lambda>e. io_return False)))"

text \<open>The result is a JSON value; \<open>JNull\<close> is the \<^verbatim>\<open>None\<close> of the except branch.\<close>

definition fetch_domain_manifest :: "bootstrap \<Rightarrow> world \<Rightarrow> string \<Rightarrow> json io" where
  "fetch_domain_manifest b w domain =
     (let manifest_path = ''domains/'' @ domain @ ''/manifest.json''
      in io_bind (emit (FetchManifest domain)) (\<lambda>u.
         try_except
           (let url = base_url b @ ''/'' @ manifest_path in urlopen_json w url)
           (\<lambda>e. io_return JNull)))"

text \<open>
  What Python does with a value that need not have the expected type:
  \<^verbatim>\<open>v.get(key, default)\<close> and \<^verbatim>\<open>v.items()\<close> exist on a dict only (AttributeError
  otherwise), \<^verbatim>\<open>for x in v\<close> runs over the elements of a list, the characters of a
  string and the keys of a dict (TypeError otherwise).
\<close>

fun py_get :: "json \<Rightarrow> string \<Rightarrow> json \<Rightarrow> json io" where
  "py_get (JObj m) key dflt = io_return (case map_of m key of Some v \<Rightarrow> v | None \<Rightarrow> dflt)"
| "py_get v key dflt = io_raise AttributeError"

fun py_items :: "json \<Rightarrow> (string \<times> json) list io" where
  "py_items (JObj m) = io_return m"
| "py_items v = io_raise AttributeError"

fun py_iter :: "json \<Rightarrow> json list io" where
  "py_iter (JArr xs) = io_return xs"
| "py_iter (JStr s) = io_return (map (\<lambda>c. JStr [c]) s)"
| "py_iter (JObj m) = io_return (map (\<lambda>(k, v). JStr k) m)"
| "py_iter v = io_raise TypeError"

text \<open>
  The body of the inner loop of \<^verbatim>\<open>apply_domain\<close>. The f-string accepts any value;
  \<^verbatim>\<open>project_root / dest_dir / file_name\<close> raises TypeError unless \<open>file_name\<close> is a
  string, before anything is fetched.
\<close>

definition apply_file :: "bootstrap \<Rightarrow> world \<Rightarrow> string \<Rightarrow> string \<Rightarrow> json \<Rightarrow> unit io" where
  "apply_file b w domain dest_dir file_name =
     (case file_name of
        JStr fname \<Rightarrow>
          (let source_path =
                 py_replace (''domains/'' @ domain @ ''/'' @ dest_dir @ ''/'' @ fname) ''//'' ''/'';
               dest_path = joinpath (joinpath (project_root b) dest_dir) fname
           in io_bind (fetch_file b w source_path dest_path) (\<lambda>ok. io_return ()))
      | _ \<Rightarrow> io_raise TypeError)"

definition apply_domain :: "bootstrap \<Rightarrow> world \<Rightarrow> string \<Rightarrow> config \<Rightarrow> bool io" where
  "apply_domain b w domain cfg =
     io_bind (fetch_domain_manifest b w domain) (\<lambda>manifest.
       if \<not> truthy manifest then io_return False
       else
         io_bind (py_get manifest ''files'' (JObj [])) (\<lambda>files_map.
         io_bind (py_items files_map) (\<lambda>items.
         io_bind
           (for_each items (\<lambda>(dest_dir, files).
              io_bind (py_iter files) (\<lambda>file_names.
                for_each file_names (apply_file b w domain dest_dir))))
           (\<lambda>u. io_return True))))"

text \<open>The f-string of \<^verbatim>\<open>create_claude_md\<close>, line by line.\<close>

definition claude_md_content :: "config \<Rightarrow> string" where
  "claude_md_content cfg =
     concat (map (\<lambda>l. l @ nl)
       [''# Claude Code Project Context'',
        [],
        ''## Project Overview'',
        ''**Name**: '' @ name cfg,
        ''**Type**: '' @ type cfg,
        ''**Description**: '' @
          (case description cfg of
             Some d \<Rightarrow> d
           | None \<Rightarrow> ''A project following Claude Code best practices''),
        [],
        ''## Technology Stack'',
        ''**Domains**: '' @ py_join '', '' (domains cfg),
        [],
        ''## Development Principles'',
        ''- Follow domain-specific best practices'',
        ''- Use test-driven development (TDD)'',
        ''- Maintain clean, documented code'',
        ''- Infrastructure as Code where applicable'',
        [],
        ''## Project Structure'',
        ''This project uses modular Claude Code configuration with the following domains:'',
        py_join nl
          (map (\<lambda>domain. ''- **'' @ title domain @ ''**: Domain-specific tooling and practices'')
             (domains cfg)),
        [],
        ''## Safety & Restrictions'',
        ''- File operations allowed within project directory only'',
        ''- Always prompt for configuration changes'',
        ''- No destructive operations outside project scope'',
        ''- All infrastructure changes through code, not CLI'',
        [],
        ''## Next Steps'',
        ''1. Review domain-specific documentation'',
        ''2. Run project setup: `make setup` or equivalent'',
        ''3. Start development with Claude Code'',
        ''4. Check TODO.md for current tasks'',
        [],
        ''## Memory Bank'',
        ''This project uses memory bank: `project-'' @ py_replace (lower (name cfg)) '' '' ''-''
          @ ''`''])"

definition create_claude_md :: "bootstrap \<Rightarrow> world \<Rightarrow> config \<Rightarrow> unit io" where
  "create_claude_md b w cfg =
     (let template_content = claude_md_content cfg;
          claude_md_path = joinpath (project_root b) ''CLAUDE.md''
      in write_text w claude_md_path template_content)"

definition gitignore_content :: string where
  "gitignore_content =
     concat (map (\<lambda>l. l @ nl)
       [''# Claude Code specific'',
        ''TODO.md'',
        ''CLAUDE.local.md'',
        ''.claude/logs/'',
        ''.claude/session-history/'',
        [],
        ''# OS'',
        ''.DS_Store'',
        ''.DS_Store?'',
        ''._*'',
        ''Thumbs.db'',
        [],
        ''# IDE'',
        ''.vscode/'',
        ''.idea/'',
        ''*.swp'',
        ''*.swo'',
        ''*~''])"

definition create_gitignore :: "bootstrap \<Rightarrow> world \<Rightarrow> config \<Rightarrow> unit io" where
  "create_gitignore b w cfg =
     (let gitignore_path = joinpath (project_root b) ''.gitignore''
      in (\<lambda>s.
           if \<not> path_exists s gitignore_path then write_text w gitignore_path gitignore_content s
           else
             io_bind (read_text w gitignore_path) (\<lambda>existing.
               if \<not> sublist ''# Claude Code specific'' existing
               then write_text w gitignore_path (existing @ nl @ gitignore_content)
               else io_return ()) s))"

definition core_files :: "string list" where
  "core_files =
     [''core/.claude/settings.json'',
      ''core/.claude/hooks/pre-tool-use-safety.py'',
      ''core/.claude/hooks/project-boundary.py'',
      ''core/.claude/commands/help.md'']"

text \<open>
  \<open>setup_project\<close>, block by block as its comments divide it. The loop over the core
  files:
\<close>

definition fetch_core_configuration :: "bootstrap \<Rightarrow> world \<Rightarrow> unit io" where
  "fetch_core_configuration b w =
     for_each core_files (\<lambda>file_path.
       let dest_path = joinpath (project_root b) (py_replace file_path ''core/'' [])
       in io_bind (fetch_file b w file_path dest_path) (\<lambda>ok. io_return ()))"

text \<open>The loop over the requested domains; the result of \<open>apply_domain\<close> is not used.\<close>

definition apply_domains :: "bootstrap \<Rightarrow> world \<Rightarrow> config \<Rightarrow> unit io" where
  "apply_domains b w cfg =
     for_each (domains cfg) (\<lambda>domain.
       io_bind (apply_domain b w domain cfg) (\<lambda>ok. io_return ()))"

text \<open>The last block; \<^verbatim>\<open>0o755\<close> is 493.\<close>

definition make_hooks_executable :: "bootstrap \<Rightarrow> world \<Rightarrow> unit io" where
  "make_hooks_executable b w =
     (let claude_dir = joinpath (project_root b) ''.claude'';
          hooks_dir = joinpath claude_dir ''hooks''
      in (\<lambda>s.
           if path_exists s hooks_dir
           then for_each (glob_py s hooks_dir) (\<lambda>hook_file. chmod w hook_file 493) s
           else io_return () s))"

definition setup_project :: "bootstrap \<Rightarrow> world \<Rightarrow> config \<Rightarrow> unit io" where
  "setup_project b w cfg =
     (let claude_dir = joinpath (project_root b) ''.claude''
      in io_bind (emit (Mkdir claude_dir)) (\<lambda>u.
         io_bind (mkdir w claude_dir False True) (\<lambda>u.
         io_bind (fetch_core_configuration b w) (\<lambda>u.
         io_bind (apply_domains b w cfg) (\<lambda>u.
         io_bind (create_claude_md b w cfg) (\<lambda>u.
         io_bind (create_gitignore b w cfg) (\<lambda>u.
         make_hooks_executable b w)))))))"

subsection \<open>main\<close>

text \<open>
  The parsed command line. A flag that was not given is \<open>None\<close>;
  \<^verbatim>\<open>--base-url\<close> has a default, so it is always a string.
\<close>

record cli_args =
  arg_interactive :: bool
  arg_name :: "string option"
  arg_domains :: "string option"
  arg_type :: "string option"
  arg_base_url :: string

text \<open>
  Python's \<^verbatim>\<open>x or d\<close> and the truth value of an optional string: \<open>None\<close> and the
  empty string are false.
\<close>

definition py_or :: "string option \<Rightarrow> string \<Rightarrow> string" where
  "py_or x d = (case x of None \<Rightarrow> d | Some v \<Rightarrow> if v = [] then d else v)"

definition truthy_str :: "string option \<Rightarrow> bool" where
  "truthy_str x = (case x of None \<Rightarrow> False | Some v \<Rightarrow> v \<noteq> [])"

text \<open>
  The branch of \<^verbatim>\<open>main\<close> that builds \<^verbatim>\<open>config\<close>. In the second branch both flags
  are non-empty strings, so \<open>py_or x []\<close> reads them.
\<close>

definition main_config :: "bootstrap \<Rightarrow> cli_args \<Rightarrow> config io" where
  "main_config b a =
     (if arg_interactive a \<or> \<not> (truthy_str (arg_name a) \<and> truthy_str (arg_domains a))
      then interactive_setup b
      else io_return
        \<lparr>name = py_or (arg_name a) [],
         type = py_or (arg_type a) ''Custom'',
         domains =
           [''git''] @
           map strip (filter (\<lambda>d. strip d \<noteq> ''git'') (py_split (py_or (arg_domains a) []) '','')),
         description = Some (''A '' @ py_or (arg_type a) ''custom'' @ '' project'')\<rparr>)"

definition main :: "world \<Rightarrow> path \<Rightarrow> cli_args \<Rightarrow> unit io" where
  "main w cwd a =
     (let b = ProjectBootstrap (arg_base_url a) cwd
      in io_bind (main_config b a) (\<lambda>cfg. setup_project b w cfg))"

section \<open>Notions of the specification\<close>

subsection \<open>Reading the project-context document\<close>

text \<open>
  Reading the document back, as the round trip of the specification does: the first line
  that starts with the label, and the list that splitting the rest of that line on
  \<^verbatim>\<open>', '\<close> gives. The script has no reader of its own.
\<close>

definition domains_line :: "string \<Rightarrow> string option" where
  "domains_line doc = find (prefix ''**Domains**: '') (py_split doc nl)"

definition parse_domains :: "string \<Rightarrow> string list option" where
  "parse_domains doc =
     map_option (\<lambda>line. py_split (drop (length ''**Domains**: '') line) '', '') (domains_line doc)"

text \<open>The lines of the document up to the one that lists the domains.\<close>

definition head_lines :: "config \<Rightarrow> string list" where
  "head_lines cfg =
       [''# Claude Code Project Context'',
        [],
        ''## Project Overview'',
        ''**Name**: '' @ name cfg,
        ''**Type**: '' @ type cfg,
        ''**Description**: '' @
          (case description cfg of
             Some d \<Rightarrow> d
           | None \<Rightarrow> ''A project following Claude Code best practices''),
        [],
        ''## Technology Stack'',
        ''**Domains**: '' @ py_join '', '' (domains cfg)]"

subsection \<open>Manifests and the calls they stand for\<close>










subsection \<open>Example inputs\<close>

text \<open>A project directory, a world where every download fails, and an empty project.\<close>

definition demo_root :: path where
  "demo_root = Path ''/'' [''proj'']"

definition demo_bootstrap :: bootstrap where
  "demo_bootstrap = ProjectBootstrap ''http://r'' demo_root"

definition offline :: world where
  "offline = \<lparr>remote = (\<lambda>url. None), json_loads = (\<lambda>body. None), denied = (\<lambda>p. False)\<rparr>"

definition fresh :: state where
  "fresh = \<lparr>nodes = [(demo_root, Dir)], modes = [], stdin = [], trace = []\<rparr>"

text \<open>A project that already has a \<^verbatim>\<open>.gitignore\<close> of its own.\<close>

definition with_gitignore :: state where
  "with_gitignore =
     \<lparr>nodes = [(demo_root, Dir), (joinpath demo_root ''.gitignore'', File ''build/'')],
      modes = [], stdin = [], trace = []\<rparr>"

definition demo_config :: config where
  "demo_config =
     \<lparr>name = ''demo'', type = ''Custom'', domains = [''git'', ''python''],
      description = Some ''A custom project''\<rparr>"

text \<open>A configuration with a line break inside a domain name.\<close>

definition newline_config :: config where
  "newline_config =
     \<lparr>name = ''demo'', type = ''Custom'', domains = [''git'', [CHR ''a'', CHR 0x0A, CHR ''b'']],
      description = Some ''A custom project''\<rparr>"


text \<open>The default of \<^verbatim>\<open>--base-url\<close>.\<close>

definition default_base_url :: string where
  "default_base_url = ''https://raw.githubusercontent.com/user/claude-project-best-practices/main''"

text \<open>The command line \<^verbatim>\<open>--name demo --domains git,python\<close>.\<close>

definition demo_args :: cli_args where
  "demo_args =
     \<lparr>arg_interactive = False, arg_name = Some ''demo'', arg_domains = Some ''git,python'',
      arg_type = None, arg_base_url = default_base_url\<rparr>"

text \<open>No flags at all, and the answers typed at the prompts.\<close>

definition no_args :: cli_args where
  "no_args =
     \<lparr>arg_interactive = False, arg_name = None, arg_domains = None, arg_type = None,
      arg_base_url = default_base_url\<rparr>"

definition typing :: state where
  "typing =
     \<lparr>nodes = [(demo_root, Dir)], modes = [],
      stdin = ['''', ''x'', ''3'', ''y'', ''n'', ''Yes '', '''', ''a tool''],
      trace = []\<rparr>"

section \<open>Properties\<close>

subsection \<open>What the primitives leave unchanged\<close>



lemma open_write_frame:
  "open_write w p c s = (r, s') \<Longrightarrow> trace s' = trace s \<and> stdin s' = stdin s \<and> modes s' = modes s"
  by (auto simp: open_write_def split: if_splits option.splits node.splits)

lemma open_write_nodes:
  "open_write w p c s = (r, s') \<Longrightarrow>
     (r = Inr () \<and> parts p \<noteq> [] \<and> nodes s' = AList.update p (File c) (nodes s)) \<or>
     ((\<exists>e. r = Inl e) \<and> s' = s)"
  by (auto simp: open_write_def node_at_def split: if_splits option.splits node.splits)

lemma node_at_update:
  "parts p \<noteq> [] \<Longrightarrow>
     node_at (s\<lparr>nodes := AList.update p n (nodes s)\<rparr>) q = (if q = p then Some n else node_at s q)"
  by (auto simp: node_at_def update_conv')

lemma open_write_node_at:
  assumes "open_write w p c s = (r, s')"
  shows "node_at s' q = (if r = Inr () \<and> q = p then Some (File c) else node_at s q)"
proof -
  from open_write_nodes [OF assms] show ?thesis
  proof
    assume ok: "r = Inr () \<and> parts p \<noteq> [] \<and> nodes s' = AList.update p (File c) (nodes s)"
    then have "node_at s' q = node_at (s\<lparr>nodes := AList.update p (File c) (nodes s)\<rparr>) q"
      by (simp add: node_at_def)
    with ok show ?thesis
      by (simp add: node_at_update)
  next
    assume "(\<exists>e. r = Inl e) \<and> s' = s"
    then show ?thesis by auto
  qed
qed



subsection \<open>The ignore file\<close>

lemma marker_in_gitignore_content:
  "sublist ''# Claude Code specific'' gitignore_content"
  "sublist ''# Claude Code specific'' (pre @ nl @ gitignore_content)"
proof -
  have "prefix ''# Claude Code specific'' gitignore_content"
    by (simp add: gitignore_content_def nl_def)
  then obtain rest where rest: "gitignore_content = ''# Claude Code specific'' @ rest"
    by (auto simp: prefix_def)
  then have "gitignore_content = [] @ ''# Claude Code specific'' @ rest"
    by simp
  then show "sublist ''# Claude Code specific'' gitignore_content"
    unfolding sublist_def by blast
  from rest have "pre @ nl @ gitignore_content = (pre @ nl) @ ''# Claude Code specific'' @ rest"
    by simp
  then show "sublist ''# Claude Code specific'' (pre @ nl @ gitignore_content)"
    unfolding sublist_def by blast
qed

lemma gitignore_path_parts:
  "parts (joinpath root ''.gitignore'') \<noteq> []"
  by (simp add: joinpath_def parse_path_def py_split_def Let_def)

text \<open>The three ways \<open>create_gitignore\<close> can end, read off the file system before it.\<close>

lemma create_gitignore_cases:
  assumes run: "create_gitignore b w cfg s = (r, s')"
  defines "g \<equiv> joinpath (project_root b) ''.gitignore''"
  shows "((\<exists>e. r = Inl e) \<and> nodes s' = nodes s \<and> modes s' = modes s \<and> stdin s' = stdin s)
    \<or> (r = Inr () \<and> node_at s g = None \<and> \<not> denied w g \<and>
        s' = s\<lparr>trace := trace s @ [WriteText g gitignore_content],
               nodes := AList.update g (File gitignore_content) (nodes s)\<rparr>)
    \<or> (r = Inr () \<and> (\<exists>c. node_at s g = Some (File c) \<and> \<not> denied w g \<and>
          sublist ''# Claude Code specific'' c \<and> s' = s))
    \<or> (r = Inr () \<and> (\<exists>c. node_at s g = Some (File c) \<and> \<not> denied w g \<and>
          \<not> sublist ''# Claude Code specific'' c \<and>
          s' = s\<lparr>trace := trace s @ [WriteText g (c @ nl @ gitignore_content)],
                 nodes := AList.update g (File (c @ nl @ gitignore_content)) (nodes s)\<rparr>))"
  using run unfolding g_def
  by (auto simp: create_gitignore_def write_text_def io_bind_def emit_def open_write_def
      read_text_def path_exists_def node_at_def io_return_def Let_def
      split: if_splits option.splits node.splits sum.splits)

lemma create_gitignore_marked:
  assumes "node_at s (joinpath (project_root b) ''.gitignore'') = Some (File c)"
    and "\<not> denied w (joinpath (project_root b) ''.gitignore'')"
    and "sublist ''# Claude Code specific'' c"
  shows "create_gitignore b w cfg s = (Inr (), s)"
  using assms
  by (simp add: create_gitignore_def path_exists_def io_bind_def read_text_def io_return_def
      Let_def)

lemma create_gitignore_fst:
  assumes "nodes t = nodes s"
  shows "fst (create_gitignore b w cfg t) = fst (create_gitignore b w cfg s)"
  using assms
  by (auto simp: create_gitignore_def write_text_def io_bind_def emit_def open_write_def
      read_text_def path_exists_def node_at_def io_return_def Let_def
      split: if_splits option.splits node.splits sum.splits)

text \<open>
  C3. A second run of \<open>create_gitignore\<close> right after a first one leaves every file as the
  first run left it; when the first run returned normally, the second one finds the marker
  and changes nothing at all (it writes nothing), so the block is not added twice.
\<close>

theorem create_gitignore_idempotent:
  assumes first: "create_gitignore b w cfg s = (r1, s1)"
    and second: "create_gitignore b w cfg s1 = (r2, s2)"
  shows "nodes s2 = nodes s1 \<and> (r1 = Inr () \<longrightarrow> r2 = Inr () \<and> s2 = s1)"
proof -
  let ?g = "joinpath (project_root b) ''.gitignore''"
  note g = gitignore_path_parts [of "project_root b"]
  consider (failed) e where "r1 = Inl e" "nodes s1 = nodes s"
    | (marked) c where "r1 = Inr ()" "node_at s1 ?g = Some (File c)" "\<not> denied w ?g"
        "sublist ''# Claude Code specific'' c"
    using create_gitignore_cases [OF first] g marker_in_gitignore_content
    by (auto simp: node_at_def update_conv')
  then show ?thesis
  proof cases
    case failed
    have "fst (create_gitignore b w cfg s1) = fst (create_gitignore b w cfg s)"
      using failed(2) by (rule create_gitignore_fst)
    with first second failed(1) have "r2 = Inl e"
      by simp
    with create_gitignore_cases [OF second] failed(1) show ?thesis
      by auto
  next
    case marked
    from create_gitignore_marked [OF marked(2,3,4)] second marked(1) show ?thesis
      by simp
  qed
qed

theorem create_gitignore_idempotent_witness:
  "fst (create_gitignore demo_bootstrap offline demo_config with_gitignore) = Inr ()
   \<and> node_at (snd (create_gitignore demo_bootstrap offline demo_config with_gitignore))
       (joinpath demo_root ''.gitignore'') = Some (File (''build/'' @ nl @ gitignore_content))
   \<and> create_gitignore demo_bootstrap offline demo_config
       (snd (create_gitignore demo_bootstrap offline demo_config with_gitignore))
     = (Inr (), snd (create_gitignore demo_bootstrap offline demo_config with_gitignore))"
proof -
  define s1 where "s1 = snd (create_gitignore demo_bootstrap offline demo_config with_gitignore)"
  have ok: "fst (create_gitignore demo_bootstrap offline demo_config with_gitignore) = Inr ()"
    and content: "node_at s1 (joinpath demo_root ''.gitignore'')
      = Some (File (''build/'' @ nl @ gitignore_content))"
    unfolding s1_def
    by (simp_all add: create_gitignore_def demo_bootstrap_def ProjectBootstrap_def offline_def
        with_gitignore_def demo_root_def path_exists_def node_at_def joinpath_def
        parse_path_def py_split_def io_bind_def read_text_def write_text_def emit_def
        open_write_def io_return_def Let_def sublist_Cons_right)
  have first: "create_gitignore demo_bootstrap offline demo_config with_gitignore = (Inr (), s1)"
    using ok by (simp add: s1_def prod_eq_iff)
  obtain r2 s2 where second:
    "create_gitignore demo_bootstrap offline demo_config s1 = (r2, s2)"
    by (cases "create_gitignore demo_bootstrap offline demo_config s1")
  from create_gitignore_idempotent [OF first second] second ok content show ?thesis
    by (simp add: s1_def)
qed



subsection \<open>Fetching one file\<close>



subsection \<open>The round trip of the domain list\<close>

lemma split_from_skip:
  "sep \<noteq> [] \<Longrightarrow> hd sep \<notin> set l \<Longrightarrow> split_from sep cur (l @ rest) = split_from sep (cur @ l) rest"
proof (induction l arbitrary: cur)
  case Nil
  then show ?case by simp
next
  case (Cons c l)
  from Cons.prems have "\<not> prefix sep (c # l @ rest)"
    by (cases sep) auto
  with Cons show ?case
    by simp
qed

lemma split_from_sep:
  "sep \<noteq> [] \<Longrightarrow> split_from sep cur (sep @ rest) = cur # split_from sep [] rest"
  by (cases sep) simp_all

lemma split_from_piece:
  "sep \<noteq> [] \<Longrightarrow> hd sep \<notin> set l \<Longrightarrow>
     split_from sep cur (l @ sep @ rest) = (cur @ l) # split_from sep [] rest"
  by (simp add: split_from_skip split_from_sep)

lemma split_from_last:
  "sep \<noteq> [] \<Longrightarrow> hd sep \<notin> set l \<Longrightarrow> split_from sep cur l = [cur @ l]"
  using split_from_skip [of sep l cur "[]"] by simp

lemma split_join:
  "sep \<noteq> [] \<Longrightarrow> xs \<noteq> [] \<Longrightarrow> \<forall>x\<in>set xs. hd sep \<notin> set x \<Longrightarrow>
     split_from sep cur (py_join sep xs) = (cur @ hd xs) # tl xs"
proof (induction sep xs arbitrary: cur rule: py_join.induct)
  case (1 sep)
  then show ?case by simp
next
  case (2 sep x)
  then show ?case by (simp add: split_from_last)
next
  case (3 sep x y ys)
  then show ?case by (simp add: split_from_piece)
qed

lemma py_join_no_char:
  "c \<notin> set sep \<Longrightarrow> \<forall>x\<in>set xs. c \<notin> set x \<Longrightarrow> c \<notin> set (py_join sep xs)"
  by (induction sep xs rule: py_join.induct) auto

lemma split_lines:
  "\<forall>l\<in>set ls. CHR 0x0A \<notin> set l \<Longrightarrow>
     split_from nl [] (concat (map (\<lambda>l. l @ nl) ls) @ rest) = ls @ split_from nl [] rest"
proof (induction ls)
  case Nil
  then show ?case by simp
next
  case (Cons l ls)
  have "split_from nl [] (l @ nl @ concat (map (\<lambda>l. l @ nl) ls) @ rest)
      = ([] @ l) # split_from nl [] (concat (map (\<lambda>l. l @ nl) ls) @ rest)"
    using Cons.prems by (intro split_from_piece) (simp_all add: nl_def)
  with Cons show ?case by simp
qed

lemma claude_md_head:
  "\<exists>rest. claude_md_content cfg = concat (map (\<lambda>l. l @ nl) (head_lines cfg)) @ rest"
  by (simp add: claude_md_content_def head_lines_def)

lemma find_in_front:
  "find P xs = Some x \<Longrightarrow> find P (xs @ ys) = Some x"
  by (induction xs) (auto split: if_splits)

lemma domains_line_found:
  assumes doc: "doc = concat (map (\<lambda>l. l @ nl) ls) @ rest"
    and lines: "\<forall>l\<in>set ls. CHR 0x0A \<notin> set l"
    and found: "find (prefix ''**Domains**: '') ls = Some line"
  shows "domains_line doc = Some line"
proof -
  have "py_split doc nl = ls @ split_from nl [] rest"
    unfolding py_split_def doc using lines by (rule split_lines)
  with found show ?thesis
    by (simp add: domains_line_def find_in_front)
qed

lemma domains_line_rendered:
  assumes "\<forall>d\<in>set (domains cfg). CHR 0x0A \<notin> set d"
    and "CHR 0x0A \<notin> set (name cfg)"
    and "CHR 0x0A \<notin> set (type cfg)"
    and "\<forall>d. description cfg = Some d \<longrightarrow> CHR 0x0A \<notin> set d"
  shows "domains_line (claude_md_content cfg) = Some (''**Domains**: '' @ py_join '', '' (domains cfg))"
proof -
  obtain rest where doc: "claude_md_content cfg = concat (map (\<lambda>l. l @ nl) (head_lines cfg)) @ rest"
    using claude_md_head by blast
  have "CHR 0x0A \<notin> set (py_join '', '' (domains cfg))"
    using assms(1) by (intro py_join_no_char) simp_all
  with assms have lines: "\<forall>l\<in>set (head_lines cfg). CHR 0x0A \<notin> set l"
    by (auto simp: head_lines_def split: option.splits)
  have "find (prefix ''**Domains**: '') (head_lines cfg)
      = Some (''**Domains**: '' @ py_join '', '' (domains cfg))"
    by (simp add: head_lines_def)
  with doc lines show ?thesis
    by (rule domains_line_found)
qed

text \<open>
  C2 (as amended). For a configuration whose domain list is not empty, whose domain names
  contain neither a comma nor a line break, and whose name, type and description contain
  no line break, the first \<^verbatim>\<open>**Domains**:\<close> line of the rendered document, split on
  \<^verbatim>\<open>', '\<close>, is the domain list in its order.
\<close>

theorem domains_round_trip:
  assumes "domains cfg \<noteq> []"
    and "\<forall>d\<in>set (domains cfg). CHR '','' \<notin> set d \<and> CHR 0x0A \<notin> set d"
    and "CHR 0x0A \<notin> set (name cfg)"
    and "CHR 0x0A \<notin> set (type cfg)"
    and "\<forall>d. description cfg = Some d \<longrightarrow> CHR 0x0A \<notin> set d"
  shows "parse_domains (claude_md_content cfg) = Some (domains cfg)"
proof -
  have line: "domains_line (claude_md_content cfg)
      = Some (''**Domains**: '' @ py_join '', '' (domains cfg))"
    using assms(2-5) by (intro domains_line_rendered) simp_all
  have "split_from '', '' [] (py_join '', '' (domains cfg)) = ([] @ hd (domains cfg)) # tl (domains cfg)"
    using assms(1,2) by (intro split_join) simp_all
  with assms(1) have "py_split (py_join '', '' (domains cfg)) '', '' = domains cfg"
    by (simp add: py_split_def)
  with line show ?thesis
    by (simp add: parse_domains_def)
qed

theorem domains_round_trip_witness:
  "parse_domains (claude_md_content demo_config) = Some [''git'', ''python'']"
proof -
  have "parse_domains (claude_md_content demo_config) = Some (domains demo_config)"
    by (rule domains_round_trip) (simp_all add: demo_config_def)
  then show ?thesis
    by (simp add: demo_config_def)
qed

text \<open>
  C2 as first stated asks for names without a comma only. A line break inside a domain name
  ends the line early: the list of \<^verbatim>\<open>git\<close> and of the name made of \<^verbatim>\<open>a\<close>, a line break
  and \<^verbatim>\<open>b\<close> is read back as \<^verbatim>\<open>['git', 'a']\<close>.
\<close>

theorem domains_round_trip_counterexample:
  "domains newline_config \<noteq> []
   \<and> CHR '','' \<notin> set (concat (domains newline_config))
   \<and> parse_domains (claude_md_content newline_config) = Some [''git'', ''a'']
   \<and> parse_domains (claude_md_content newline_config) \<noteq> Some (domains newline_config)"
proof -
  have "\<exists>rest. claude_md_content newline_config =
      concat (map (\<lambda>l. l @ nl)
        [''# Claude Code Project Context'', [], ''## Project Overview'', ''**Name**: demo'',
         ''**Type**: Custom'', ''**Description**: A custom project'', [],
         ''## Technology Stack'', ''**Domains**: git, a'']) @ rest"
    by (simp add: claude_md_content_def newline_config_def nl_def)
  then obtain rest where doc: "claude_md_content newline_config =
      concat (map (\<lambda>l. l @ nl)
        [''# Claude Code Project Context'', [], ''## Project Overview'', ''**Name**: demo'',
         ''**Type**: Custom'', ''**Description**: A custom project'', [],
         ''## Technology Stack'', ''**Domains**: git, a'']) @ rest"
    by blast
  have "domains_line (claude_md_content newline_config) = Some ''**Domains**: git, a''"
    using doc by (rule domains_line_found) simp_all
  then have "parse_domains (claude_md_content newline_config) = Some [''git'', ''a'']"
    by (simp add: parse_domains_def py_split_def)
  then show ?thesis
    by (simp add: newline_config_def)
qed

subsection \<open>Applying a domain\<close>

lemma io_bind_Inr:
  assumes "io_bind m f s = (Inr r, s')"
  obtains a s1 where "m s = (Inr a, s1)" and "f a s1 = (Inr r, s')"
  using assms by (auto simp: io_bind_def split: prod.splits sum.splits)












subsection \<open>The phases of the setup\<close>



lemma mkdir_single:
  "mkdir w p False exist_ok s =
     (case os_mkdir w p s of
        (Inr u, s') \<Rightarrow> (Inr u, s')
      | (Inl e, s') \<Rightarrow>
          if e = FileNotFoundError \<or> \<not> exist_ok \<or> \<not> is_dir s' p then (Inl e, s') else (Inr (), s'))"
  by (subst mkdir.simps) (auto split: prod.splits sum.splits)

lemma mkdir_single_trace:
  "mkdir w p False exist_ok (s\<lparr>trace := t\<rparr>)
     = (case mkdir w p False exist_ok s of (r, s') \<Rightarrow> (r, s'\<lparr>trace := t\<rparr>))"
  by (auto simp: mkdir_single os_mkdir_def path_exists_def is_dir_def node_at_def
      split: option.splits node.splits)


lemma chmod_loop_result:
  "for_each ps (\<lambda>hook_file. chmod w hook_file mode) s = (Inr (), s') \<Longrightarrow>
     nodes s' = nodes s \<and> stdin s' = stdin s \<and> trace s' = trace s @ map (\<lambda>p. Chmod p mode) ps"
proof (induction ps arbitrary: s)
  case Nil
  then show ?case by simp
next
  case (Cons p ps)
  obtain r1 s1 where one: "chmod w p mode s = (r1, s1)"
    by (cases "chmod w p mode s")
  with Cons.prems have r1: "r1 = Inr ()" and rest: "for_each ps (\<lambda>hook_file. chmod w hook_file mode) s1 = (Inr (), s')"
    by (auto split: sum.splits)
  from one r1 have "nodes s1 = nodes s \<and> stdin s1 = stdin s \<and> trace s1 = trace s @ [Chmod p mode]"
    by (auto simp: chmod_def io_bind_def emit_def split: if_splits)
  with Cons.IH [OF rest] show ?case by simp
qed

lemma make_hooks_executable_result:
  assumes "make_hooks_executable b w s = (Inr (), s')"
  shows "nodes s' = nodes s \<and> stdin s' = stdin s
    \<and> trace s' = trace s @ map (\<lambda>p. Chmod p 493)
        (if path_exists s' (joinpath (joinpath (project_root b) ''.claude'') ''hooks'')
         then glob_py s' (joinpath (joinpath (project_root b) ''.claude'') ''hooks'') else [])"
proof (cases "path_exists s (joinpath (joinpath (project_root b) ''.claude'') ''hooks'')")
  case False
  with assms have "s' = s"
    by (simp add: make_hooks_executable_def Let_def io_return_def)
  with False show ?thesis by simp
next
  case True
  let ?h = "joinpath (joinpath (project_root b) ''.claude'') ''hooks''"
  from True assms have "for_each (glob_py s ?h) (\<lambda>hook_file. chmod w hook_file 493) s = (Inr (), s')"
    by (simp add: make_hooks_executable_def Let_def)
  from chmod_loop_result [OF this]
  have f: "nodes s' = nodes s" "stdin s' = stdin s"
    "trace s' = trace s @ map (\<lambda>p. Chmod p 493) (glob_py s ?h)"
    by simp_all
  from f(1) have "glob_py s' ?h = glob_py s ?h" "path_exists s' ?h = path_exists s ?h"
    by (simp_all add: glob_py_def is_dir_def path_exists_def node_at_def)
  with True f show ?thesis by simp
qed

lemma project_file_paths:
  "joinpath root ''CLAUDE.md'' \<noteq> joinpath root ''.gitignore''"
  "parts (joinpath root ''CLAUDE.md'') \<noteq> []"
  by (simp_all add: joinpath_def parse_path_def py_split_def Let_def)

lemma create_gitignore_success:
  assumes run: "create_gitignore b w cfg s = (Inr (), s')"
  shows "\<exists>gi c content.
      (gi = [] \<or> gi = [WriteText (joinpath (project_root b) ''.gitignore'') c])
    \<and> trace s' = trace s @ gi \<and> stdin s' = stdin s
    \<and> node_at s' (joinpath (project_root b) ''.gitignore'') = Some (File content)
    \<and> sublist ''# Claude Code specific'' content
    \<and> (\<forall>p. p \<noteq> joinpath (project_root b) ''.gitignore'' \<longrightarrow> node_at s' p = node_at s p)"
proof -
  let ?g = "joinpath (project_root b) ''.gitignore''"
  note g = gitignore_path_parts [of "project_root b"]
  from create_gitignore_cases [OF run] consider
      (created) "s' = s\<lparr>trace := trace s @ [WriteText ?g gitignore_content],
               nodes := AList.update ?g (File gitignore_content) (nodes s)\<rparr>"
    | (kept) c where "node_at s ?g = Some (File c)" "sublist ''# Claude Code specific'' c" "s' = s"
    | (appended) c where
        "s' = s\<lparr>trace := trace s @ [WriteText ?g (c @ nl @ gitignore_content)],
                 nodes := AList.update ?g (File (c @ nl @ gitignore_content)) (nodes s)\<rparr>"
    by auto
  then show ?thesis
  proof cases
    case created
    have "node_at s' p = (if p = ?g then Some (File gitignore_content) else node_at s p)" for p
      unfolding created using g by (simp add: node_at_def update_conv')
    with created marker_in_gitignore_content(1) show ?thesis
      by (intro exI [of _ "[WriteText ?g gitignore_content]"] exI [of _ gitignore_content]) simp
  next
    case kept
    then show ?thesis
      by (intro exI [of _ "[]"] exI [of _ c]) simp
  next
    case appended
    have "node_at s' p = (if p = ?g then Some (File (c @ nl @ gitignore_content)) else node_at s p)"
      for p
      unfolding appended using g by (simp add: node_at_def update_conv')
    with appended marker_in_gitignore_content(2) [of c] show ?thesis
      by (intro exI [of _ "[WriteText ?g (c @ nl @ gitignore_content)]"]
          exI [of _ "c @ nl @ gitignore_content"]) simp
  qed
qed

text \<open>What the last three blocks of \<open>setup_project\<close> leave when none of them raises.\<close>

lemma project_files_result:
  assumes run: "io_bind (create_claude_md b w cfg) (\<lambda>u.
      io_bind (create_gitignore b w cfg) (\<lambda>u. make_hooks_executable b w)) s = (Inr (), s')"
  shows "\<exists>gi c. (gi = [] \<or> gi = [WriteText (joinpath (project_root b) ''.gitignore'') c])
    \<and> trace s' = trace s @ WriteText (joinpath (project_root b) ''CLAUDE.md'') (claude_md_content cfg)
        # gi @ map (\<lambda>p. Chmod p 493)
          (if path_exists s' (joinpath (joinpath (project_root b) ''.claude'') ''hooks'')
           then glob_py s' (joinpath (joinpath (project_root b) ''.claude'') ''hooks'') else [])
    \<and> node_at s' (joinpath (project_root b) ''CLAUDE.md'') = Some (File (claude_md_content cfg))
    \<and> (\<exists>content. node_at s' (joinpath (project_root b) ''.gitignore'') = Some (File content)
          \<and> sublist ''# Claude Code specific'' content)
    \<and> stdin s' = stdin s"
proof -
  let ?cm = "joinpath (project_root b) ''CLAUDE.md''"
  let ?g = "joinpath (project_root b) ''.gitignore''"
  from run obtain u1 s1 where md: "create_claude_md b w cfg s = (Inr u1, s1)"
    and run2: "io_bind (create_gitignore b w cfg) (\<lambda>u. make_hooks_executable b w) s1 = (Inr (), s')"
    by (rule io_bind_Inr)
  from run2 obtain u2 s2 where gi: "create_gitignore b w cfg s1 = (Inr u2, s2)"
    and hooks: "make_hooks_executable b w s2 = (Inr (), s')"
    by (rule io_bind_Inr)
  let ?s0 = "s\<lparr>trace := trace s @ [WriteText ?cm (claude_md_content cfg)]\<rparr>"
  from md have ow: "open_write w ?cm (claude_md_content cfg) ?s0 = (Inr (), s1)"
    by (simp add: create_claude_md_def write_text_def io_bind_def emit_def Let_def)
  from open_write_frame [OF ow] have t1:
    "trace s1 = trace s @ [WriteText ?cm (claude_md_content cfg)]" "stdin s1 = stdin s"
    by simp_all
  from open_write_node_at [OF ow, of ?cm] have n1: "node_at s1 ?cm = Some (File (claude_md_content cfg))"
    by simp
  from gi have gi': "create_gitignore b w cfg s1 = (Inr (), s2)"
    by simp
  from create_gitignore_success [OF gi'] obtain gi_events c content where
    g2: "gi_events = [] \<or> gi_events = [WriteText ?g c]"
      "trace s2 = trace s1 @ gi_events" "stdin s2 = stdin s1"
      "node_at s2 ?g = Some (File content)" "sublist ''# Claude Code specific'' content"
      "\<forall>p. p \<noteq> ?g \<longrightarrow> node_at s2 p = node_at s1 p"
    by blast
  from g2(6) project_file_paths(1) [of "project_root b"] n1
  have n2: "node_at s2 ?cm = Some (File (claude_md_content cfg))"
    by simp
  from make_hooks_executable_result [OF hooks]
  have h: "nodes s' = nodes s2" "stdin s' = stdin s2"
    "trace s' = trace s2 @ map (\<lambda>p. Chmod p 493)
        (if path_exists s' (joinpath (joinpath (project_root b) ''.claude'') ''hooks'')
         then glob_py s' (joinpath (joinpath (project_root b) ''.claude'') ''hooks'') else [])"
    by simp_all
  from h(1) have same: "node_at s' p = node_at s2 p" for p
    by (simp add: node_at_def)
  have "trace s' = trace s @ WriteText ?cm (claude_md_content cfg) # gi_events
        @ map (\<lambda>p. Chmod p 493)
          (if path_exists s' (joinpath (joinpath (project_root b) ''.claude'') ''hooks'')
           then glob_py s' (joinpath (joinpath (project_root b) ''.claude'') ''hooks'') else [])"
    using h(3) g2(2) t1(1) by simp
  moreover have "node_at s' ?cm = Some (File (claude_md_content cfg))"
    using same n2 by simp
  moreover have "\<exists>content. node_at s' ?g = Some (File content)
      \<and> sublist ''# Claude Code specific'' content"
    using same g2(4,5) by simp
  moreover have "stdin s' = stdin s"
    using h(2) g2(3) t1(2) by simp
  ultimately show ?thesis
    using g2(1) by blast
qed


text \<open>
  \<^verbatim>\<open>replace('//', '/')\<close> at work: an empty destination directory leaves no double
  slash, and of three slashes in a row two remain, since the occurrences are replaced from
  the left without overlap.
\<close>

lemma replace_double_slash:
  "py_replace (''domains/'' @ ''git'' @ ''/'' @ [] @ ''/'' @ ''x.md'') ''//'' ''/''
     = ''domains/git/x.md''"
  "py_replace (''domains/'' @ ''git'' @ ''/'' @ ''/'' @ ''/'' @ ''x.md'') ''//'' ''/''
     = ''domains/git//x.md''"
  by (simp_all add: py_replace.simps)




lemma setup_project_Inr:
  assumes run: "setup_project b w cfg s = (Inr (), s')"
  shows "fst (mkdir w (joinpath (project_root b) ''.claude'') False True s) = Inr ()
    \<and> (\<exists>s3. io_bind (create_claude_md b w cfg) (\<lambda>u.
            io_bind (create_gitignore b w cfg) (\<lambda>u. make_hooks_executable b w)) s3 = (Inr (), s'))"
proof -
  let ?cd = "joinpath (project_root b) ''.claude''"
  let ?tail = "io_bind (create_claude_md b w cfg) (\<lambda>u.
            io_bind (create_gitignore b w cfg) (\<lambda>u. make_hooks_executable b w))"
  from run have "io_bind (emit (Mkdir ?cd)) (\<lambda>u.
         io_bind (mkdir w ?cd False True) (\<lambda>u.
         io_bind (fetch_core_configuration b w) (\<lambda>u.
         io_bind (apply_domains b w cfg) (\<lambda>u. ?tail)))) s = (Inr (), s')"
    by (simp add: setup_project_def Let_def)
  then obtain u0 s0 where e: "emit (Mkdir ?cd) s = (Inr u0, s0)"
    and r0: "io_bind (mkdir w ?cd False True) (\<lambda>u.
         io_bind (fetch_core_configuration b w) (\<lambda>u.
         io_bind (apply_domains b w cfg) (\<lambda>u. ?tail))) s0 = (Inr (), s')"
    by (rule io_bind_Inr)
  from r0 obtain u1 s1 where mk: "mkdir w ?cd False True s0 = (Inr u1, s1)"
    and r1: "io_bind (fetch_core_configuration b w) (\<lambda>u.
         io_bind (apply_domains b w cfg) (\<lambda>u. ?tail)) s1 = (Inr (), s')"
    by (rule io_bind_Inr)
  from r1 obtain u2 s2 where
    r2: "io_bind (apply_domains b w cfg) (\<lambda>u. ?tail) s2 = (Inr (), s')"
    by (rule io_bind_Inr)
  from r2 obtain u3 s3 where r3: "?tail s3 = (Inr (), s')"
    by (rule io_bind_Inr)
  from e have "s0 = s\<lparr>trace := trace s @ [Mkdir ?cd]\<rparr>"
    by (simp add: emit_def)
  with mk have "fst (mkdir w ?cd False True s) = Inr ()"
    by (simp add: mkdir_single_trace split: prod.splits)
  with r3 show ?thesis
    by blast
qed



lemma demo_paths:
  "joinpath (Path ''/'' [''proj'']) ''.claude'' = Path ''/'' [''proj'', ''.claude'']"
  "joinpath (Path ''/'' [''proj'']) ''CLAUDE.md'' = Path ''/'' [''proj'', ''CLAUDE.md'']"
  "joinpath (Path ''/'' [''proj'']) ''.gitignore'' = Path ''/'' [''proj'', ''.gitignore'']"
  "joinpath (Path ''/'' [''proj'', ''.claude'']) ''hooks'' = Path ''/'' [''proj'', ''.claude'', ''hooks'']"
  "joinpath (Path ''/'' [''proj'']) ''.claude/settings.json''
     = Path ''/'' [''proj'', ''.claude'', ''settings.json'']"
  "joinpath (Path ''/'' [''proj'']) ''.claude/hooks/pre-tool-use-safety.py''
     = Path ''/'' [''proj'', ''.claude'', ''hooks'', ''pre-tool-use-safety.py'']"
  "joinpath (Path ''/'' [''proj'']) ''.claude/hooks/project-boundary.py''
     = Path ''/'' [''proj'', ''.claude'', ''hooks'', ''project-boundary.py'']"
  "joinpath (Path ''/'' [''proj'']) ''.claude/commands/help.md''
     = Path ''/'' [''proj'', ''.claude'', ''commands'', ''help.md'']"
  "joinpath (joinpath (Path ''/'' [''proj'']) ''.claude/hooks'') ''git-check.py''
     = Path ''/'' [''proj'', ''.claude'', ''hooks'', ''git-check.py'']"
  "joinpath (joinpath (Path ''/'' [''proj'']) ''.claude/hooks'') ''missing.py''
     = Path ''/'' [''proj'', ''.claude'', ''hooks'', ''missing.py'']"
  by (simp_all add: joinpath_def parse_path_def py_split_def Let_def)








subsection \<open>The configuration that main builds\<close>

lemma input_trace:
  "input s = (r, s') \<Longrightarrow> trace s' = trace s @ [Input]"
  by (auto simp: input_def io_bind_def emit_def split: list.splits)

lemma select_project_type_grows:
  "select_project_type s = (r, s') \<Longrightarrow> prefix (trace s) (trace s')"
proof (induction s arbitrary: r s' rule: select_project_type.induct)
  case (1 s)
  note unf = "1.prems" [unfolded select_project_type.simps [of s]]
  obtain r0 s0 where inp: "input s = (r0, s0)"
    by (cases "input s")
  from input_trace [OF inp] have t0: "prefix (trace s) (trace s0)"
    by simp
  show ?case
  proof (cases r0)
    case (Inl e)
    with unf inp t0 show ?thesis by simp
  next
    case (Inr line)
    show ?thesis
    proof (cases "py_int (if line = [] then ''1'' else line)")
      case None
      with unf inp Inr have "select_project_type s0 = (r, s')"
        by simp
      from "1.IH"(1) [OF inp [symmetric] Inr None this] t0 show ?thesis
        by (rule prefix_order.trans [rotated])
    next
      case (Some choice)
      show ?thesis
      proof (cases "1 \<le> choice \<and> choice \<le> int (length project_types)")
        case True
        with unf inp Inr Some t0 show ?thesis by simp
      next
        case False
        with unf inp Inr Some have "select_project_type s0 = (r, s')"
          by (simp split: if_splits)
        from "1.IH"(2) [OF inp [symmetric] Inr Some False this] t0 show ?thesis
          by (rule prefix_order.trans [rotated])
      qed
    qed
  qed
qed

lemma ask_domains_result:
  "ask_domains ds selected s = (r, s') \<Longrightarrow>
     prefix (trace s) (trace s')
     \<and> (\<forall>result. r = Inr result \<longrightarrow> (\<exists>added. result = selected @ added \<and> set added \<subseteq> set ds))"
proof (induction ds arbitrary: selected s)
  case Nil
  then show ?case by auto
next
  case (Cons d ds)
  obtain r0 s0 where inp: "input s = (r0, s0)"
    by (cases "input s")
  from input_trace [OF inp] have t0: "prefix (trace s) (trace s0)"
    by simp
  show ?case
  proof (cases r0)
    case (Inl e)
    with Cons.prems inp t0 show ?thesis by auto
  next
    case (Inr line)
    let ?sel = "if lower (strip line) \<in> set [''y'', ''yes''] then selected @ [d] else selected"
    from Cons.prems inp Inr have rest: "ask_domains ds ?sel s0 = (r, s')"
      by (simp add: Let_def)
    from Cons.IH [OF rest] t0 have "prefix (trace s) (trace s')"
      by (auto intro: prefix_order.trans)
    moreover have "\<exists>added. result = selected @ added \<and> set added \<subseteq> set (d # ds)"
      if "r = Inr result" for result
    proof -
      from Cons.IH [OF rest] that obtain added where "result = ?sel @ added" "set added \<subseteq> set ds"
        by blast
      then show ?thesis
        by (cases "lower (strip line) \<in> set [''y'', ''yes'']") auto
    qed
    ultimately show ?thesis by blast
  qed
qed

text \<open>What an interactive run can return, and that it starts by reading a line.\<close>

lemma interactive_setup_result:
  assumes "interactive_setup b s = (r, s')"
  shows "prefix (trace s @ [Input]) (trace s')
    \<and> (\<forall>cfg. r = Inr cfg \<longrightarrow>
          (\<exists>added. domains cfg = ''git'' # added \<and> set added \<subseteq> set (drop 1 (available_domains b))))"
proof -
  obtain r1 s1 where i1: "input s = (r1, s1)"
    by (cases "input s")
  from input_trace [OF i1] have t1: "trace s1 = trace s @ [Input]" .
  show ?thesis
  proof (cases r1)
    case (Inl e)
    with assms i1 t1 show ?thesis
      by (auto simp: interactive_setup_def io_bind_def Let_def)
  next
    case line1: (Inr line1)
    obtain r2 s2 where i2: "select_project_type s1 = (r2, s2)"
      by (cases "select_project_type s1")
    from select_project_type_grows [OF i2] have t2: "prefix (trace s1) (trace s2)" .
    show ?thesis
    proof (cases r2)
      case (Inl e)
      with assms i1 line1 i2 t1 t2 show ?thesis
        by (auto simp: interactive_setup_def io_bind_def Let_def)
    next
      case ptype: (Inr ptype)
      obtain r3 s3 where i3: "ask_domains (drop 1 (available_domains b)) [''git''] s2 = (r3, s3)"
        by (cases "ask_domains (drop 1 (available_domains b)) [''git''] s2")
      note a3 = ask_domains_result [OF i3]
      from a3 t2 have t3: "prefix (trace s1) (trace s3)"
        by (auto intro: prefix_order.trans)
      show ?thesis
      proof (cases r3)
        case (Inl e)
        with assms i1 line1 i2 ptype i3 t1 t3 show ?thesis
          by (auto simp: interactive_setup_def io_bind_def Let_def)
      next
        case sel: (Inr selected)
        with a3 obtain added where added: "selected = ''git'' # added"
          "set added \<subseteq> set (drop 1 (available_domains b))"
          by auto
        obtain r4 s4 where i4: "input s3 = (r4, s4)"
          by (cases "input s3")
        from input_trace [OF i4] t3 have t4: "prefix (trace s1) (trace s4)"
          by (auto intro: prefix_order.trans)
        from assms i1 line1 i2 ptype i3 sel i4 t1 t4 added show ?thesis
          by (cases r4) (auto simp: interactive_setup_def io_bind_def io_return_def Let_def)
      qed
    qed
  qed
qed


text \<open>
  C8. Every configuration that \<open>main\<close> builds, by prompting or from the flags, has a domain
  list that starts with \<^verbatim>\<open>git\<close> and contains \<^verbatim>\<open>git\<close> exactly once.
\<close>

theorem main_config_git_once:
  assumes "main_config (ProjectBootstrap url cwd) a s = (Inr cfg, s')"
  shows "domains cfg \<noteq> [] \<and> hd (domains cfg) = ''git'' \<and> count_list (domains cfg) ''git'' = 1"
proof (cases "arg_interactive a \<or> \<not> (truthy_str (arg_name a) \<and> truthy_str (arg_domains a))")
  case True
  with assms have "interactive_setup (ProjectBootstrap url cwd) s = (Inr cfg, s')"
    by (simp add: main_config_def)
  from interactive_setup_result [OF this] obtain added where
    "domains cfg = ''git'' # added"
    "set added \<subseteq> set (drop 1 (available_domains (ProjectBootstrap url cwd)))"
    by blast
  moreover from this have "''git'' \<notin> set added"
    by (auto simp: ProjectBootstrap_def)
  ultimately show ?thesis
    by (simp add: count_list_0_iff)
next
  case False
  let ?rest = "map strip (filter (\<lambda>d. strip d \<noteq> ''git'') (py_split (py_or (arg_domains a) []) '',''))"
  from False assms have "domains cfg = ''git'' # ?rest"
    by (auto simp: main_config_def io_return_def)
  moreover have "''git'' \<notin> set ?rest"
    by auto
  ultimately show ?thesis
    by (simp add: count_list_0_iff)
qed

lemma typed_run:
  "main_config (ProjectBootstrap default_base_url demo_root) no_args typing
     = (Inr \<lparr>name = ''proj'', type = ''CLI Tool'', domains = [''git'', ''python'', ''docker''],
              description = Some ''a tool''\<rparr>,
        typing\<lparr>stdin := [], trace := [Input, Input, Input, Input, Input, Input, Input, Input]\<rparr>)"
  by code_simp

lemma demo_args_run:
  "main_config b demo_args s = (Inr demo_config, s)"
  by (simp add: main_config_def demo_args_def demo_config_def truthy_str_def py_or_def io_return_def
      py_split_def strip_def whitespace_def)

theorem main_config_git_once_witness:
  "count_list (domains \<lparr>name = ''proj'', type = ''CLI Tool'',
       domains = [''git'', ''python'', ''docker''], description = Some ''a tool''\<rparr>) ''git'' = 1
   \<and> count_list (domains demo_config) ''git'' = 1"
  using main_config_git_once [OF typed_run]
    main_config_git_once [OF demo_args_run [of "ProjectBootstrap default_base_url demo_root" fresh]]
  by simp

text \<open>
  C6. \<open>main\<close> prompts exactly when \<^verbatim>\<open>--interactive\<close> is given or one of
  \<^verbatim>\<open>--name\<close> and \<^verbatim>\<open>--domains\<close> is absent or empty: then it is
  \<open>interactive_setup\<close>, whose first step reads standard input. Otherwise the configuration
  comes from the flags alone, with the type \<^verbatim>\<open>Custom\<close> when \<^verbatim>\<open>--type\<close> is absent or
  empty, and the state is untouched: nothing is read.
\<close>

theorem main_prompts_iff:
  "(prefix (trace s @ [Input]) (trace (snd (main_config b a s)))
      \<longleftrightarrow> arg_interactive a \<or> arg_name a = None \<or> arg_name a = Some []
          \<or> arg_domains a = None \<or> arg_domains a = Some [])
   \<and> (arg_interactive a \<or> arg_name a = None \<or> arg_name a = Some []
          \<or> arg_domains a = None \<or> arg_domains a = Some [] \<longrightarrow>
        main_config b a s = interactive_setup b s)
   \<and> (\<not> arg_interactive a \<and> arg_name a = Some n \<and> n \<noteq> [] \<and> arg_domains a = Some ds \<and> ds \<noteq> [] \<longrightarrow>
        main_config b a s =
          (Inr \<lparr>name = n,
                 type = (case arg_type a of None \<Rightarrow> ''Custom''
                         | Some t \<Rightarrow> if t = [] then ''Custom'' else t),
                 domains = ''git'' # map strip (filter (\<lambda>d. strip d \<noteq> ''git'') (py_split ds '','')),
                 description = Some (''A '' @ (case arg_type a of None \<Rightarrow> ''custom''
                         | Some t \<Rightarrow> if t = [] then ''custom'' else t) @ '' project'')\<rparr>,
           s))"
proof -
  let ?prompt = "arg_interactive a \<or> arg_name a = None \<or> arg_name a = Some []
          \<or> arg_domains a = None \<or> arg_domains a = Some []"
  have cond: "(arg_interactive a \<or> \<not> (truthy_str (arg_name a) \<and> truthy_str (arg_domains a))) = ?prompt"
    by (auto simp: truthy_str_def split: option.splits)
  have inter: "main_config b a s = interactive_setup b s" if ?prompt
    using that cond by (simp add: main_config_def)
  have flags: "main_config b a s =
          (Inr \<lparr>name = n,
                 type = (case arg_type a of None \<Rightarrow> ''Custom''
                         | Some t \<Rightarrow> if t = [] then ''Custom'' else t),
                 domains = ''git'' # map strip (filter (\<lambda>d. strip d \<noteq> ''git'') (py_split ds '','')),
                 description = Some (''A '' @ (case arg_type a of None \<Rightarrow> ''custom''
                         | Some t \<Rightarrow> if t = [] then ''custom'' else t) @ '' project'')\<rparr>,
           s)"
    if "\<not> arg_interactive a \<and> arg_name a = Some n \<and> n \<noteq> [] \<and> arg_domains a = Some ds \<and> ds \<noteq> []"
    for n ds
    using that
    by (simp add: main_config_def truthy_str_def py_or_def io_return_def split: option.splits)
  have "prefix (trace s @ [Input]) (trace (snd (main_config b a s))) \<longleftrightarrow> ?prompt"
  proof (cases ?prompt)
    case True
    obtain r s' where run: "interactive_setup b s = (r, s')"
      by (cases "interactive_setup b s")
    from interactive_setup_result [OF run] run inter [OF True] True show ?thesis
      by simp
  next
    case False
    then obtain n ds where "\<not> arg_interactive a \<and> arg_name a = Some n \<and> n \<noteq> []
        \<and> arg_domains a = Some ds \<and> ds \<noteq> []"
      by auto
    from flags [OF this] False show ?thesis
      by simp
  qed
  with inter flags show ?thesis
    by blast
qed

theorem main_prompts_iff_witness:
  "prefix (trace typing @ [Input])
     (trace (snd (main_config (ProjectBootstrap default_base_url demo_root) no_args typing)))
   \<and> \<not> prefix (trace fresh @ [Input])
     (trace (snd (main_config (ProjectBootstrap default_base_url demo_root) demo_args fresh)))
   \<and> main_config (ProjectBootstrap default_base_url demo_root) demo_args fresh
       = (Inr \<lparr>name = ''demo'', type = ''Custom'', domains = [''git'', ''python''],
                description = Some ''A custom project''\<rparr>, fresh)"
proof -
  have interactive: "arg_interactive no_args \<or> arg_name no_args = None \<or> arg_name no_args = Some []
          \<or> arg_domains no_args = None \<or> arg_domains no_args = Some []"
    by (simp add: no_args_def)
  have from_flags: "\<not> arg_interactive demo_args \<and> arg_name demo_args = Some ''demo'' \<and> ''demo'' \<noteq> []
      \<and> arg_domains demo_args = Some ''git,python'' \<and> ''git,python'' \<noteq> []"
    by (simp add: demo_args_def)
  from main_prompts_iff [of typing "ProjectBootstrap default_base_url demo_root" no_args]
    interactive
  have one: "prefix (trace typing @ [Input])
     (trace (snd (main_config (ProjectBootstrap default_base_url demo_root) no_args typing)))"
    by blast
  from main_prompts_iff [of fresh "ProjectBootstrap default_base_url demo_root" demo_args
      "''demo''" "''git,python''"] from_flags
  have two: "\<not> prefix (trace fresh @ [Input])
     (trace (snd (main_config (ProjectBootstrap default_base_url demo_root) demo_args fresh)))"
    and three: "main_config (ProjectBootstrap default_base_url demo_root) demo_args fresh
       = (Inr \<lparr>name = ''demo'', type = ''Custom'', domains = [''git'', ''python''],
                description = Some ''A custom project''\<rparr>, fresh)"
    by (simp_all add: demo_args_def py_split_def strip_def whitespace_def)
  from one two three show ?thesis
    by blast
qed

text \<open>
  C4. With \<^verbatim>\<open>--name demo --domains git,python\<close> \<open>main\<close> does not prompt; the split gives
  \<^verbatim>\<open>git\<close> and \<^verbatim>\<open>python\<close>, the filter drops that \<^verbatim>\<open>git\<close> and \<^verbatim>\<open>git\<close> is put in
  front, so the domain list is \<^verbatim>\<open>['git', 'python']\<close>. The document rendered from this
  configuration has the line \<^verbatim>\<open>**Domains**: git, python\<close>, and a run of \<open>main\<close> that
  returns has written that document to \<^verbatim>\<open>CLAUDE.md\<close>.
\<close>

theorem cli_demo_domains:
  "main_config b demo_args s = (Inr demo_config, s)
   \<and> py_split ''git,python'' '','' = [''git'', ''python'']
   \<and> filter (\<lambda>d. strip d \<noteq> ''git'') (py_split ''git,python'' '','') = [''python'']
   \<and> domains demo_config = [''git'', ''python'']
   \<and> domains_line (claude_md_content demo_config) = Some ''**Domains**: git, python''
   \<and> (main w cwd demo_args s = (Inr (), s') \<longrightarrow>
        node_at s' (joinpath cwd ''CLAUDE.md'') = Some (File (claude_md_content demo_config)))"
proof -
  have line: "domains_line (claude_md_content demo_config) = Some ''**Domains**: git, python''"
    using domains_line_rendered [of demo_config] by (simp add: demo_config_def)
  have written: "node_at s' (joinpath cwd ''CLAUDE.md'') = Some (File (claude_md_content demo_config))"
    if "main w cwd demo_args s = (Inr (), s')"
  proof -
    let ?b = "ProjectBootstrap (arg_base_url demo_args) cwd"
    from that have "setup_project ?b w demo_config s = (Inr (), s')"
      by (simp add: main_def Let_def io_bind_def demo_args_run)
    from setup_project_Inr [OF this] obtain s3 where
      "io_bind (create_claude_md ?b w demo_config) (\<lambda>u.
         io_bind (create_gitignore ?b w demo_config) (\<lambda>u. make_hooks_executable ?b w)) s3
       = (Inr (), s')"
      by blast
    from project_files_result [OF this]
    have "node_at s' (joinpath (project_root ?b) ''CLAUDE.md'')
        = Some (File (claude_md_content demo_config))"
      by blast
    then show ?thesis
      by (simp add: ProjectBootstrap_def)
  qed
  from line written demo_args_run [of b s] show ?thesis
    by (simp add: demo_config_def py_split_def strip_def whitespace_def)
qed

lemma demo_main_run:
  "fst (main offline demo_root demo_args fresh) = Inr ()"
  by code_simp

theorem cli_demo_domains_witness:
  "fst (main offline demo_root demo_args fresh) = Inr ()
   \<and> node_at (snd (main offline demo_root demo_args fresh)) (Path ''/'' [''proj'', ''CLAUDE.md''])
       = Some (File (claude_md_content demo_config))
   \<and> domains_line (claude_md_content demo_config) = Some ''**Domains**: git, python''"
proof -
  have run: "main offline demo_root demo_args fresh
      = (Inr (), snd (main offline demo_root demo_args fresh))"
    using demo_main_run by (simp add: prod_eq_iff)
  from cli_demo_domains [of demo_bootstrap fresh offline demo_root
      "snd (main offline demo_root demo_args fresh)"] run demo_main_run
  show ?thesis
    by (simp add: demo_root_def demo_paths)
qed

end
